theory Spec2Isabelle
  imports Complex_Main
begin

section \<open>Tables, cells and rows\<close>

text \<open>
  The program (\<^verbatim>\<open>app.py\<close>) keeps its data in pandas tables. A table is modelled as
  the list of its rows, in row order. A cell that pandas shows as \<^verbatim>\<open>NaN\<close>,
  \<^verbatim>\<open>None\<close> or \<^verbatim>\<open>NaT\<close> is \<open>None\<close>; a number is an exact rational (a
  \<^verbatim>\<open>float64\<close> without its binary rounding), and \<open>flt\<close> is a number cell that may be
  \<^verbatim>\<open>NaN\<close>. The calls into pandas that parse a cell
  (\<^verbatim>\<open>pd.to_numeric\<close>, \<^verbatim>\<open>pd.to_datetime\<close>, both with \<^verbatim>\<open>errors="coerce"\<close>) are the
  typed boundary of the model: a field holds what the parser returns, and \<open>None\<close> where it
  coerces to \<^verbatim>\<open>NaN\<close> or \<^verbatim>\<open>NaT\<close>.
\<close>

type_synonym flt = "rat option"

text \<open>A calendar date and a time of day, as \<^verbatim>\<open>Timestamp.date()\<close> and
  \<^verbatim>\<open>Timestamp.time()\<close> give them (fractions of a second left out).\<close>

record date =
  year :: nat
  month :: nat
  day :: nat

record tod =
  hour :: nat
  minute :: nat
  second :: nat

text \<open>
  One row of the sheet \<^verbatim>\<open>Event_Log\<close>, one field per column of \<^verbatim>\<open>need_cols\<close>
  (accents and units dropped from the names: \<open>Precio\<close> is the column
  \<^verbatim>\<open>Precio (MXN)\<close>, \<open>Addon_Pizza\<close> is \<^verbatim>\<open>Add-on Pizza (Si/No)\<close>, and so on). A column
  that the sheet lacks is added by \<^verbatim>\<open>ensure_eventlog_columns\<close> as a column of
  \<^verbatim>\<open>NaN\<close>; in the record both are the field being \<open>None\<close> in every row. \<open>ID\<close> is
  the cell after \<^verbatim>\<open>pd.to_numeric(df["ID"], errors="coerce")\<close>; ids are whole numbers.
\<close>

record event =
  ID :: "int option"
  Fecha :: "date option"
  Hora :: "tod option"
  Hora_fin :: "tod option"
  Nombre :: "string option"
  Direccion :: "string option"
  Telefono :: "string option"
  Colonia_Zona :: "string option"
  Paquete :: "string option"
  Precio :: flt
  Addon_Pizza :: "string option"
  Margen_Pizza :: flt
  Retro_exterior :: "string option"
  Costo_variable :: flt
  Notas :: "string option"
  Estatus :: "string option"

definition blank_row :: event where
  "blank_row = \<lparr>ID = None, Fecha = None, Hora = None, Hora_fin = None, Nombre = None,
     Direccion = None, Telefono = None, Colonia_Zona = None, Paquete = None, Precio = None,
     Addon_Pizza = None, Margen_Pizza = None, Retro_exterior = None, Costo_variable = None,
     Notas = None, Estatus = None\<rparr>"

section \<open>The event log normalizer: \<^verbatim>\<open>ensure_eventlog_columns\<close>\<close>

text \<open>Column operations of pandas and numpy used on the \<^verbatim>\<open>ID\<close> column.\<close>

fun dropna :: "'a option list \<Rightarrow> 'a list" where
  "dropna [] = []"
| "dropna (None # xs) = dropna xs"
| "dropna (Some x # xs) = x # dropna xs"

text \<open>\<^verbatim>\<open>Series.max()\<close> skips \<^verbatim>\<open>NaN\<close> and is \<^verbatim>\<open>NaN\<close> on a column without a number.\<close>

definition col_max :: "int option list \<Rightarrow> int option" where
  "col_max col = (case dropna col of [] \<Rightarrow> None | x # xs \<Rightarrow> Some (fold max xs x))"

text \<open>\<^verbatim>\<open>range(a, b)\<close>.\<close>

definition py_range :: "int \<Rightarrow> int \<Rightarrow> int list" where
  "py_range a b = [a..b - 1]"

definition isna :: "'a option list \<Rightarrow> bool list" where
  "isna col = map (\<lambda>c. c = None) col"

text \<open>\<^verbatim>\<open>mask.sum()\<close> and \<^verbatim>\<open>mask.any()\<close> of a boolean column.\<close>

definition mask_sum :: "bool list \<Rightarrow> nat" where
  "mask_sum msk = length (filter (\<lambda>b. b) msk)"

definition np_any :: "bool list \<Rightarrow> bool" where
  "np_any msk = (True \<in> set msk)"

text \<open>\<^verbatim>\<open>df.loc[mask, "ID"] = new\<close>: the rows under the mask take the new values in
  row order.\<close>

fun loc_assign :: "bool list \<Rightarrow> 'a list \<Rightarrow> 'a list \<Rightarrow> 'a list" where
  "loc_assign (True # msk) (c # col) (v # new) = v # loc_assign msk col new"
| "loc_assign (False # msk) (c # col) new = c # loc_assign msk col new"
| "loc_assign msk col new = col"

text \<open>\<^verbatim>\<open>Series.duplicated(keep="first")\<close>: a row is marked when an earlier row holds
  the same value. \<^verbatim>\<open>np.where(mask)[0]\<close>: the positions marked, ascending.\<close>

definition duplicated :: "'a list \<Rightarrow> bool list" where
  "duplicated col = map (\<lambda>i. col ! i \<in> set (take i col)) [0..<length col]"

definition np_where :: "bool list \<Rightarrow> nat list" where
  "np_where msk = filter (\<lambda>i. msk ! i) [0..<length msk]"

text \<open>
  The block \<^verbatim>\<open>nan_mask = df["ID"].isna(); if nan_mask.any(): ...\<close>: the rows without
  an id take \<open>max_id + 1, max_id + 2, \<dots>\<close>; the result is the column and the new
  \<open>max_id\<close>.
\<close>

definition fill_nan_ids :: "int \<Rightarrow> int option list \<Rightarrow> int option list \<times> int" where
  "fill_nan_ids max_id col =
     (let nan_mask = isna col
      in if np_any nan_mask
         then (let new_ids = py_range (max_id + 1) (max_id + 1 + int (mask_sum nan_mask))
               in (loc_assign nan_mask col (map Some new_ids), max_id + int (mask_sum nan_mask)))
         else (col, max_id))"

text \<open>
  The block \<^verbatim>\<open>dups = df["ID"].duplicated(keep="first"); if dups.any(): for idx in
  np.where(dups)[0]: max_id += 1; df.iat[idx, ...] = max_id\<close>. \<open>reassign\<close> is one turn of
  the loop on the state \<open>(max_id, column)\<close>.
\<close>

definition reassign :: "nat \<Rightarrow> int \<times> int option list \<Rightarrow> int \<times> int option list" where
  "reassign idx st = (case st of (max_id, col) \<Rightarrow> (max_id + 1, col[idx := Some (max_id + 1)]))"

definition reassign_dups :: "int \<Rightarrow> int option list \<Rightarrow> int option list" where
  "reassign_dups max_id col =
     (let dups = duplicated col
      in if np_any dups then snd (fold reassign (np_where dups) (max_id, col)) else col)"

text \<open>
  The \<^verbatim>\<open>ID\<close> column after the id block. \<^verbatim>\<open>df["ID"].isna().all()\<close> holds exactly when
  the maximum is \<^verbatim>\<open>NaN\<close> (lemma \<open>col_max_None_iff\<close>), so both are read off \<open>col_max\<close>;
  on whole numbers \<^verbatim>\<open>int(df["ID"].max() or 0)\<close> is the maximum itself. The closing
  \<^verbatim>\<open>astype(int)\<close> would raise on a \<^verbatim>\<open>NaN\<close>; none is left by then (lemma
  \<open>ensure_ids_no_None\<close>).
\<close>

definition ensure_ids :: "int option list \<Rightarrow> int option list" where
  "ensure_ids col =
     (case col_max col of
        None \<Rightarrow> map Some (py_range 1 (int (length col) + 1))
      | Some mx \<Rightarrow>
          (case fill_nan_ids mx col of (col1, max_id) \<Rightarrow> reassign_dups max_id col1))"

text \<open>\<^verbatim>\<open>df["Estatus"].fillna("Pendiente").replace({"": "Pendiente"})\<close>, on one cell.\<close>

definition fill_status :: "string option \<Rightarrow> string option" where
  "fill_status s = (case s of None \<Rightarrow> Some ''Pendiente''
                    | Some t \<Rightarrow> if t = [] then Some ''Pendiente'' else Some t)"



section \<open>Text\<close>

text \<open>
  A Python \<^verbatim>\<open>str\<close> is modelled by its UTF-8 bytes (\<open>string\<close> is a list of bytes), so an
  accented letter is two bytes. \<open>py_str\<close> is \<^verbatim>\<open>str(x)\<close> and the \<^verbatim>\<open>{x}\<close> of an
  f-string on a text cell: a missing cell prints as \<^verbatim>\<open>nan\<close>.
\<close>

definition py_str :: "string option \<Rightarrow> string" where
  "py_str c = (case c of None \<Rightarrow> ''nan'' | Some s \<Rightarrow> s)"

text \<open>
  \<^verbatim>\<open>str.lower()\<close> on the bytes: the letters A to Z, and the capital letters of the
  Latin-1 supplement (bytes \<open>C3 80\<close> to \<open>C3 9E\<close> but the sign \<open>C3 97\<close>, which go to the
  byte \<open>0x20\<close> higher). Capital letters of other blocks are left as they are.
\<close>

definition lower_ascii :: "char \<Rightarrow> char" where
  "lower_ascii c = (let n = (of_char c :: nat) in if 65 \<le> n \<and> n \<le> 90 then char_of (n + 32) else c)"

fun lower :: "string \<Rightarrow> string" where
  "lower [] = []"
| "lower [c] = [lower_ascii c]"
| "lower (c # c' # cs) =
     (if (of_char c :: nat) = 195 \<and> 128 \<le> (of_char c' :: nat) \<and> (of_char c' :: nat) \<le> 158
         \<and> (of_char c' :: nat) \<noteq> 151
      then c # char_of ((of_char c' :: nat) + 32) # lower cs
      else lower_ascii c # lower (c' # cs))"

text \<open>\<^verbatim>\<open>str.strip()\<close>: the ASCII white space (blank, tab, line feed, vertical tab, form
  feed, carriage return and the separators \<open>0x1C\<close> to \<open>0x1F\<close>) is dropped at both ends.\<close>

definition is_space :: "char \<Rightarrow> bool" where
  "is_space c = (let n = (of_char c :: nat) in n = 32 \<or> (9 \<le> n \<and> n \<le> 13) \<or> (28 \<le> n \<and> n \<le> 31))"

definition strip :: "string \<Rightarrow> string" where
  "strip s = rev (dropWhile is_space (rev (dropWhile is_space s)))"


text \<open>\<^verbatim>\<open>sep.join(parts)\<close>.\<close>

fun join_with :: "string \<Rightarrow> string list \<Rightarrow> string" where
  "join_with sep [] = []"
| "join_with sep [x] = x"
| "join_with sep (x # y # ys) = x @ sep @ join_with sep (y # ys)"

text \<open>Decimal digits; \<open>pad2\<close> and \<open>pad4\<close> are the zero-padded fields of
  \<^verbatim>\<open>strftime\<close> (\<^verbatim>\<open>%m %d %H %M %S\<close> and \<^verbatim>\<open>%Y\<close>).\<close>

definition digit :: "nat \<Rightarrow> char" where
  "digit n = ''0123456789'' ! (n mod 10)"

definition pad2 :: "nat \<Rightarrow> string" where
  "pad2 n = [digit (n div 10), digit n]"

definition pad4 :: "nat \<Rightarrow> string" where
  "pad4 n = [digit (n div 1000), digit (n div 100), digit (n div 10), digit n]"

fun show_nat :: "nat \<Rightarrow> string" where
  "show_nat n = (if n < 10 then [digit n] else show_nat (n div 10) @ [digit n])"

text \<open>
  The format \<^verbatim>\<open>{x:,.0f}\<close>: the number rounded to a whole number (a tie goes to the
  even neighbour), its digits in groups of three; \<^verbatim>\<open>nan\<close> for a missing number.
\<close>

definition rint :: "rat \<Rightarrow> int" where
  "rint x = (let f = \<lfloor>x\<rfloor>; d = x - of_int f
             in if d < 1 / 2 then f else if 1 / 2 < d then f + 1 else if even f then f else f + 1)"

fun commas :: "string \<Rightarrow> string" where
  "commas (a # b # c # d # ds) = a # b # c # CHR '','' # commas (d # ds)"
| "commas ds = ds"

definition fmt_comma0 :: "flt \<Rightarrow> string" where
  "fmt_comma0 x = (case x of None \<Rightarrow> ''nan''
     | Some v \<Rightarrow> (if v < 0 then ''-'' else []) @ rev (commas (rev (show_nat (nat \<bar>rint v\<bar>)))))"

section \<open>Dates and instants\<close>

text \<open>A \<^verbatim>\<open>datetime\<close> without a time zone, as \<^verbatim>\<open>datetime.combine(date, time)\<close> builds it.\<close>

record datetime =
  dt_date :: date
  dt_time :: tod

text \<open>The order of \<^verbatim>\<open>datetime\<close> values: field by field, the year first.\<close>

definition date_less :: "date \<Rightarrow> date \<Rightarrow> bool" where
  "date_less a b = (year a < year b \<or> (year a = year b \<and>
                     (month a < month b \<or> (month a = month b \<and> day a < day b))))"

definition tod_less :: "tod \<Rightarrow> tod \<Rightarrow> bool" where
  "tod_less a b = (hour a < hour b \<or> (hour a = hour b \<and>
                    (minute a < minute b \<or> (minute a = minute b \<and> second a < second b))))"

definition dt_less :: "datetime \<Rightarrow> datetime \<Rightarrow> bool" where
  "dt_less a b = (date_less (dt_date a) (dt_date b) \<or>
                   (dt_date a = dt_date b \<and> tod_less (dt_time a) (dt_time b)))"

definition dt_le :: "datetime \<Rightarrow> datetime \<Rightarrow> bool" where
  "dt_le a b = (dt_less a b \<or> a = b)"

text \<open>
  \<^verbatim>\<open>dt + timedelta(hours=2)\<close>, in the Gregorian calendar. (Python raises past the year
  9999; a pandas timestamp ends in 2262.)
\<close>

definition is_leap :: "nat \<Rightarrow> bool" where
  "is_leap y = (y mod 4 = 0 \<and> (y mod 100 \<noteq> 0 \<or> y mod 400 = 0))"

definition days_in_month :: "nat \<Rightarrow> nat \<Rightarrow> nat" where
  "days_in_month y m =
     (if m = 2 then (if is_leap y then 29 else 28)
      else if m = 4 \<or> m = 6 \<or> m = 9 \<or> m = 11 then 30 else 31)"

definition next_day :: "date \<Rightarrow> date" where
  "next_day d =
     (if day d < days_in_month (year d) (month d) then d\<lparr>day := day d + 1\<rparr>
      else if month d < 12 then d\<lparr>month := month d + 1, day := 1\<rparr>
      else \<lparr>year = year d + 1, month = 1, day = 1\<rparr>)"

definition plus_2h :: "datetime \<Rightarrow> datetime" where
  "plus_2h dt =
     (let t = dt_time dt
      in if hour t + 2 < 24 then dt\<lparr>dt_time := t\<lparr>hour := hour t + 2\<rparr>\<rparr>
         else \<lparr>dt_date = next_day (dt_date dt), dt_time = t\<lparr>hour := hour t + 2 - 24\<rparr>\<rparr>)"

text \<open>\<^verbatim>\<open>strftime\<close> with the formats \<^verbatim>\<open>%Y%m%dT%H%M%S\<close> and
  \<^verbatim>\<open>%Y-%m-%dT%H:%M:%S\<close>.\<close>

definition fmt_compact :: "datetime \<Rightarrow> string" where
  "fmt_compact dt =
     pad4 (year (dt_date dt)) @ pad2 (month (dt_date dt)) @ pad2 (day (dt_date dt)) @ ''T'' @
     pad2 (hour (dt_time dt)) @ pad2 (minute (dt_time dt)) @ pad2 (second (dt_time dt))"

definition fmt_iso :: "datetime \<Rightarrow> string" where
  "fmt_iso dt =
     pad4 (year (dt_date dt)) @ ''-'' @ pad2 (month (dt_date dt)) @ ''-'' @ pad2 (day (dt_date dt)) @
     ''T'' @ pad2 (hour (dt_time dt)) @ '':'' @ pad2 (minute (dt_time dt)) @ '':'' @
     pad2 (second (dt_time dt))"

section \<open>The calendar projection and the iCalendar export\<close>

text \<open>
  \<^verbatim>\<open>_combine_dt(fecha_val, hora_val, fallback)\<close>. \<open>fecha_val\<close> is the date that
  \<^verbatim>\<open>pd.to_datetime(fecha_val, errors="coerce")\<close> parses, \<open>None\<close> for \<^verbatim>\<open>NaT\<close>;
  \<open>hora_val\<close> is the time that \<^verbatim>\<open>pd.to_datetime(str(hora_val), errors="coerce")\<close>
  parses, \<open>None\<close> when the cell is missing, blank or not a time. The time goes through
  \<^verbatim>\<open>strftime("%H:%M")\<close>, which keeps the hour and the minute; \<open>fallback\<close> is such a
  pair too (\<^verbatim>\<open>"10:00"\<close> is \<open>(10, 0)\<close>).
\<close>

definition combine_dt :: "date option \<Rightarrow> tod option \<Rightarrow> nat \<times> nat \<Rightarrow> datetime option" where
  "combine_dt fecha_val hora_val fallback =
     (case fecha_val of
        None \<Rightarrow> None
      | Some f \<Rightarrow>
          (let h_str = (case hora_val of None \<Rightarrow> fallback | Some h_dt \<Rightarrow> (hour h_dt, minute h_dt))
           in Some \<lparr>dt_date = f, dt_time = \<lparr>hour = fst h_str, minute = snd h_str, second = 0\<rparr>\<rparr>))"

text \<open>\<^verbatim>\<open>dtstart.strftime("%H:%M")\<close>, the fallback for the end.\<close>

definition hhmm :: "datetime \<Rightarrow> nat \<times> nat" where
  "hhmm dt = (hour (dt_time dt), minute (dt_time dt))"

text \<open>The description of \<^verbatim>\<open>to_ics\<close>: the non-blank cells among zone, package, notes,
  phone and address, each after its column name.\<close>

definition desc_part :: "string \<Rightarrow> string option \<Rightarrow> string list" where
  "desc_part key val =
     (case val of None \<Rightarrow> [] | Some s \<Rightarrow> if strip s \<noteq> [] then [key @ '': '' @ s] else [])"

definition desc_parts :: "event \<Rightarrow> string list" where
  "desc_parts r =
     desc_part ''Colonia/Zona'' (Colonia_Zona r) @ desc_part ''Paquete'' (Paquete r) @
     desc_part ''Notas'' (Notas r) @
     desc_part (''Tel'' @ [char_of (195 :: nat), char_of (169 :: nat)] @ ''fono'') (Telefono r) @
     desc_part (''Direcci'' @ [char_of (195 :: nat), char_of (179 :: nat)] @ ''n'') (Direccion r)"

text \<open>
  One turn of the loop of \<^verbatim>\<open>to_ics\<close>: \<open>None\<close> is its \<^verbatim>\<open>continue\<close>, otherwise the
  lines of one \<^verbatim>\<open>VEVENT\<close> block. \<open>now\<close> is the reading of \<^verbatim>\<open>datetime.utcnow()\<close>.
\<close>

definition ics_event :: "datetime \<Rightarrow> event \<Rightarrow> string list option" where
  "ics_event now r =
     (case combine_dt (Fecha r) (Hora r) (10, 0) of
        None \<Rightarrow> None
      | Some dtstart \<Rightarrow>
          (let dtend0 = combine_dt (Fecha r) (Hora_fin r) (hhmm dtstart);
               dtend = (case dtend0 of None \<Rightarrow> plus_2h dtstart
                        | Some e \<Rightarrow> if dt_le e dtstart then plus_2h dtstart else e);
               uid = fmt_compact dtstart @ ''-gamebus@agenda'';
               title = ''Evento: '' @ py_str (Nombre r) @ '' - $'' @ fmt_comma0 (Precio r);
               loc = py_str (Direccion r);
               desc = join_with '' | '' (desc_parts r)
           in Some [''BEGIN:VEVENT'',
                    ''UID:'' @ uid,
                    ''DTSTAMP:'' @ fmt_compact now @ ''Z'',
                    ''DTSTART:'' @ fmt_compact dtstart,
                    ''DTEND:'' @ fmt_compact dtend,
                    ''SUMMARY:'' @ title,
                    ''LOCATION:'' @ loc,
                    ''DESCRIPTION:'' @ desc,
                    ''END:VEVENT'']))"

definition ics_step :: "datetime \<Rightarrow> event \<Rightarrow> string list \<Rightarrow> string list" where
  "ics_step now r lines = (case ics_event now r of None \<Rightarrow> lines | Some block \<Rightarrow> lines @ block)"

text \<open>The list \<^verbatim>\<open>lines\<close> of \<^verbatim>\<open>to_ics\<close> when the loop is over, and the text returned.\<close>

definition ics_lines :: "datetime \<Rightarrow> event list \<Rightarrow> string list" where
  "ics_lines now df_events =
     fold (ics_step now) df_events
       [''BEGIN:VCALENDAR'', ''VERSION:2.0'', ''PRODID:-//GAME BUS MTY//Agenda//ES'']
     @ [''END:VCALENDAR'']"

definition to_ics :: "datetime \<Rightarrow> event list \<Rightarrow> string" where
  "to_ics now df_events = join_with [char_of (13 :: nat), char_of (10 :: nat)] (ics_lines now df_events)"



text \<open>\<^verbatim>\<open>build_iso(row)\<close>; the pair \<^verbatim>\<open>(None, None)\<close> is \<open>None\<close>.\<close>

definition build_iso :: "event \<Rightarrow> (string \<times> string) option" where
  "build_iso row =
     (case Fecha row of
        None \<Rightarrow> None
      | Some d \<Rightarrow>
          (case combine_dt (Some d) (Hora row) (10, 0) of
             None \<Rightarrow> None
           | Some start_dt \<Rightarrow>
               (let end_dt0 = combine_dt (Some d) (Hora_fin row) (hhmm start_dt);
                    end_dt = (case end_dt0 of None \<Rightarrow> plus_2h start_dt
                              | Some e \<Rightarrow> if dt_le e start_dt then plus_2h start_dt else e)
                in Some (fmt_iso start_dt, fmt_iso end_dt))))"






text \<open>
  The start and the end of an event as the specification words them, for an event on the
  date \<open>d\<close>: the start is \<open>d\<close> at the start time, or at 10:00 without one; the end is \<open>d\<close>
  at the end time when that is strictly after the start, and two hours after the start
  otherwise. \<open>whole_minute\<close> is a time with its seconds cut off.
\<close>

definition whole_minute :: "tod \<Rightarrow> tod" where
  "whole_minute t = t\<lparr>second := 0\<rparr>"

definition start_instant :: "date \<Rightarrow> event \<Rightarrow> datetime" where
  "start_instant d r =
     \<lparr>dt_date = d,
      dt_time = (case Hora r of None \<Rightarrow> \<lparr>hour = 10, minute = 0, second = 0\<rparr>
                 | Some t \<Rightarrow> whole_minute t)\<rparr>"

definition end_instant_stated :: "date \<Rightarrow> event \<Rightarrow> datetime" where
  "end_instant_stated d r =
     (case Hora_fin r of
        None \<Rightarrow> plus_2h (start_instant d r)
      | Some t \<Rightarrow> if dt_less (start_instant d r) \<lparr>dt_date = d, dt_time = t\<rparr>
                  then \<lparr>dt_date = d, dt_time = t\<rparr> else plus_2h (start_instant d r))"

definition end_instant :: "date \<Rightarrow> event \<Rightarrow> datetime" where
  "end_instant d r =
     (case Hora_fin r of
        None \<Rightarrow> plus_2h (start_instant d r)
      | Some t \<Rightarrow> if dt_less (start_instant d r) \<lparr>dt_date = d, dt_time = whole_minute t\<rparr>
                  then \<lparr>dt_date = d, dt_time = whole_minute t\<rparr> else plus_2h (start_instant d r))"

text \<open>Dates and times within the ranges of the calendar and of the clock.\<close>

definition valid_date :: "date \<Rightarrow> bool" where
  "valid_date d = (year d < 10000 \<and> 1 \<le> month d \<and> month d \<le> 12 \<and> 1 \<le> day d \<and> day d \<le> 31)"

definition valid_tod :: "tod \<Rightarrow> bool" where
  "valid_tod t = (hour t < 24 \<and> minute t < 60 \<and> second t < 60)"

definition valid_row :: "event \<Rightarrow> bool" where
  "valid_row r = ((case Fecha r of None \<Rightarrow> True | Some d \<Rightarrow> valid_date d) \<and>
                  (case Hora r of None \<Rightarrow> True | Some t \<Rightarrow> valid_tod t))"

text \<open>Example rows: an event with an end time that has seconds, and two different events
  on one day without a start time.\<close>

definition march_1 :: date where
  "march_1 = \<lparr>year = 2025, month = 3, day = 1\<rparr>"

definition seconds_example :: event where
  "seconds_example = blank_row\<lparr>ID := Some 1, Fecha := Some march_1,
     Hora := Some \<lparr>hour = 10, minute = 0, second = 0\<rparr>,
     Hora_fin := Some \<lparr>hour = 12, minute = 30, second = 45\<rparr>, Nombre := Some ''Ana''\<rparr>"

definition no_end_example :: event where
  "no_end_example = blank_row\<lparr>ID := Some 2, Fecha := Some march_1,
     Hora := Some \<lparr>hour = 23, minute = 15, second = 0\<rparr>, Nombre := Some ''Luis''\<rparr>"

definition same_start_example :: "event list" where
  "same_start_example =
     [blank_row\<lparr>ID := Some 1, Fecha := Some march_1, Nombre := Some ''Ana'', Precio := Some 1500\<rparr>,
      blank_row\<lparr>ID := Some 2, Nombre := Some ''Sin fecha''\<rparr>,
      blank_row\<lparr>ID := Some 3, Fecha := Some march_1, Nombre := Some ''Luis'', Precio := Some 2000\<rparr>]"

definition clock_example :: datetime where
  "clock_example = \<lparr>dt_date = \<lparr>year = 2025, month = 2, day = 20\<rparr>,
                    dt_time = \<lparr>hour = 8, minute = 5, second = 9\<rparr>\<rparr>"

section \<open>The monthly rollup: \<^verbatim>\<open>compute_monthly\<close>\<close>

subsection \<open>Numbers with \<^verbatim>\<open>NaN\<close>\<close>

text \<open>Arithmetic of \<^verbatim>\<open>float64\<close> cells: a \<^verbatim>\<open>NaN\<close> operand gives \<^verbatim>\<open>NaN\<close>.\<close>

definition fadd :: "flt \<Rightarrow> flt \<Rightarrow> flt" where
  "fadd a b = (case a of None \<Rightarrow> None | Some x \<Rightarrow> (case b of None \<Rightarrow> None | Some y \<Rightarrow> Some (x + y)))"

definition fsub :: "flt \<Rightarrow> flt \<Rightarrow> flt" where
  "fsub a b = (case a of None \<Rightarrow> None | Some x \<Rightarrow> (case b of None \<Rightarrow> None | Some y \<Rightarrow> Some (x - y)))"

definition fmul :: "flt \<Rightarrow> flt \<Rightarrow> flt" where
  "fmul a b = (case a of None \<Rightarrow> None | Some x \<Rightarrow> (case b of None \<Rightarrow> None | Some y \<Rightarrow> Some (x * y)))"

text \<open>\<^verbatim>\<open>Series.fillna(0)\<close> on one cell.\<close>

definition fillna0 :: "flt \<Rightarrow> flt" where
  "fillna0 a = (case a of None \<Rightarrow> Some 0 | Some x \<Rightarrow> Some x)"

text \<open>
  \<^verbatim>\<open>Series.round(2)\<close>: numpy rounds \<open>x * 100\<close> to the nearest whole number, a tie to
  the even one, and divides by 100; \<^verbatim>\<open>NaN\<close> stays \<^verbatim>\<open>NaN\<close>.
\<close>

definition round2 :: "rat \<Rightarrow> rat" where
  "round2 x = of_int (rint (x * 100)) / 100"

definition fround2 :: "flt \<Rightarrow> flt" where
  "fround2 a = map_option round2 a"

text \<open>
  Division of cells. A quotient by zero is \<^verbatim>\<open>inf\<close> or \<^verbatim>\<open>NaN\<close> in numpy and stands as
  \<open>None\<close> here; the program takes quotients only under \<^verbatim>\<open>np.where(n > 0, ..., 0)\<close>, which
  discards it. \<open>np_where_pos n a\<close> is \<^verbatim>\<open>np.where(n > 0, a, 0)\<close> on one row: a \<^verbatim>\<open>NaN\<close>
  count is not positive.
\<close>

definition fdiv :: "flt \<Rightarrow> flt \<Rightarrow> flt" where
  "fdiv a b = (case a of None \<Rightarrow> None
               | Some x \<Rightarrow> (case b of None \<Rightarrow> None | Some y \<Rightarrow> if y = 0 then None else Some (x / y)))"

definition np_where_pos :: "flt \<Rightarrow> flt \<Rightarrow> flt" where
  "np_where_pos n a = (case n of None \<Rightarrow> Some 0 | Some k \<Rightarrow> if 0 < k then a else Some 0)"

subsection \<open>Months\<close>

definition SPANISH_MONTHS :: "string list" where
  "SPANISH_MONTHS = [''Ene'', ''Feb'', ''Mar'', ''Abr'', ''May'', ''Jun'',
                     ''Jul'', ''Ago'', ''Sep'', ''Oct'', ''Nov'', ''Dic'']"

text \<open>The dictionary \<^verbatim>\<open>{i+1: m for i, m in enumerate(SPANISH_MONTHS)}\<close>.\<close>

definition MONTH_NAME_MAP :: "nat \<Rightarrow> string option" where
  "MONTH_NAME_MAP k = (if 1 \<le> k \<and> k \<le> 12 then Some (SPANISH_MONTHS ! (k - 1)) else None)"

definition APPLY_FIXED_FROM_MONTH :: nat where
  "APPLY_FIXED_FROM_MONTH = 10"

fun index_of :: "'a \<Rightarrow> 'a list \<Rightarrow> nat option" where
  "index_of x [] = None"
| "index_of x (y # ys) = (if x = y then Some 0 else map_option Suc (index_of x ys))"

text \<open>\<^verbatim>\<open>month_to_num\<close>: the position in \<^verbatim>\<open>SPANISH_MONTHS\<close> plus one, and 0 when
  \<^verbatim>\<open>index\<close> raises.\<close>

definition month_to_num :: "string \<Rightarrow> nat" where
  "month_to_num mes_str = (case index_of mes_str SPANISH_MONTHS of Some i \<Rightarrow> i + 1 | None \<Rightarrow> 0)"

subsection \<open>The tables\<close>

text \<open>
  A row of the summary that \<^verbatim>\<open>compute_monthly\<close> returns, one field per column
  (\<open>Costo_variable_mes\<close> is the column \<^verbatim>\<open>Costo variable (MXN)\<close> and \<open>Margen_Pizza_mes\<close>
  the column \<^verbatim>\<open>Margen Pizza (MXN)\<close> of the summary; \<open>Reservas_Meta\<close> is
  \<^verbatim>\<open>Reservas/Meta (%)\<close>, the booking ratio).
\<close>

record monthly_row =
  Mes :: string
  Eventos :: flt
  Precio_promedio :: flt
  Ingresos :: flt
  Costo_variable_mes :: flt
  Gastos_fijos :: flt
  Addons_Pizza :: flt
  Margen_Pizza_mes :: flt
  Utilidad_neta :: flt
  ARPU_real :: flt
  Reservas_Meta :: flt
  Adopcion_Retro :: flt
  Resenas_nuevas :: flt

text \<open>
  The sheets that \<^verbatim>\<open>compute_monthly\<close> reads from \<^verbatim>\<open>dfs\<close>. \<open>Assumptions\<close> holds the
  columns \<^verbatim>\<open>Variable\<close> and \<^verbatim>\<open>Valor\<close>, \<open>Funnel\<close> the columns \<^verbatim>\<open>Mes\<close> and
  \<^verbatim>\<open>Reservas confirmadas\<close>, \<open>Monthly\<close> the columns \<^verbatim>\<open>Mes\<close> and
  \<^verbatim>\<open>Resenas nuevas (#)\<close>; a sheet that is empty or lacks these columns is the empty
  list. \<open>Valor\<close> is the cell as \<^verbatim>\<open>float\<close> reads it.
\<close>

record dfs =
  Assumptions :: "(string \<times> flt) list"
  Monthly :: "(string \<times> flt) list"
  Funnel :: "(string \<times> flt) list"
  Event_Log :: "event list"

text \<open>\<^verbatim>\<open>get_assumption(dfs, var_name, default)\<close>: the value of the first row with that
  variable name (it may be \<^verbatim>\<open>NaN\<close>), the default without such a row.\<close>

definition get_assumption :: "dfs \<Rightarrow> string \<Rightarrow> flt \<Rightarrow> flt" where
  "get_assumption d var_name dflt =
     (case filter (\<lambda>row. fst row = var_name) (Assumptions d) of
        [] \<Rightarrow> dflt
      | row # rest \<Rightarrow> snd row)"

datatype error = InvalidIndexError

subsection \<open>Aggregation of the completed events\<close>

text \<open>\<^verbatim>\<open>ev_all["Estatus"].str.lower() == "efectuado"\<close>, on one row.\<close>

definition efectuado :: "event \<Rightarrow> bool" where
  "efectuado e = (case Estatus e of None \<Rightarrow> False | Some s \<Rightarrow> lower s = ''efectuado'')"

text \<open>\<^verbatim>\<open>ev["Fecha"].dt.month.map(MONTH_NAME_MAP)\<close>, on one row.\<close>

definition ev_Mes :: "event \<Rightarrow> string option" where
  "ev_Mes e = (case Fecha e of None \<Rightarrow> None | Some d \<Rightarrow> MONTH_NAME_MAP (month d))"

text \<open>
  The yes/no columns:
  \<^verbatim>\<open>fillna(False).astype(str).str.strip().str.lower().isin(["si", "si'", "true", "1", "x", "yes"])\<close>
  (the second token is \<open>si\<close> with an accent). A missing cell becomes the text
  \<^verbatim>\<open>False\<close>, which is no token.
\<close>

definition yes_tokens :: "string list" where
  "yes_tokens = [''si'', ''s'' @ [char_of (195 :: nat), char_of (173 :: nat)], ''true'', ''1'', ''x'', ''yes'']"

definition is_yes :: "string option \<Rightarrow> bool" where
  "is_yes c = (case c of None \<Rightarrow> False | Some s \<Rightarrow> lower (strip s) \<in> set yes_tokens)"

text \<open>The group of a month in \<^verbatim>\<open>ev.groupby("Mes")\<close>, and the aggregations of pandas on
  a group: \<^verbatim>\<open>count\<close>, \<^verbatim>\<open>sum\<close> and \<^verbatim>\<open>mean\<close> skip \<^verbatim>\<open>NaN\<close>; the mean of no number
  is \<^verbatim>\<open>NaN\<close>.\<close>

definition month_group :: "event list \<Rightarrow> string \<Rightarrow> event list" where
  "month_group ev m = filter (\<lambda>e. ev_Mes e = Some m) ev"

definition col_count :: "flt list \<Rightarrow> nat" where
  "col_count col = length (dropna col)"

definition col_sum :: "flt list \<Rightarrow> rat" where
  "col_sum col = sum_list (dropna col)"

definition col_mean :: "flt list \<Rightarrow> flt" where
  "col_mean col = (if dropna col = [] then None else Some (col_sum col / of_nat (col_count col)))"

definition count_true :: "bool list \<Rightarrow> nat" where
  "count_true bs = length (filter (\<lambda>b. b) bs)"

text \<open>
  One row of \<^verbatim>\<open>base\<close> after \<^verbatim>\<open>base.merge(agg, on="Mes", how="left")\<close>: a month with
  a group takes the aggregated columns, with the variable cost after the backfill
  \<^verbatim>\<open>float(sum or 0) + miss[i] * costo_var_default\<close> and the retro adoption after
  \<^verbatim>\<open>(mean * 100).round(2)\<close>; a month without a group takes \<^verbatim>\<open>NaN\<close> in these columns.
  (The group of the events without a month matches no row of \<^verbatim>\<open>base\<close>.)
\<close>

definition merge_agg :: "event list \<Rightarrow> flt \<Rightarrow> monthly_row \<Rightarrow> monthly_row" where
  "merge_agg ev costo_var_default r =
     (let g = month_group ev (Mes r)
      in if g = []
         then r\<lparr>Eventos := None, Precio_promedio := None, Ingresos := None,
                Costo_variable_mes := None, Addons_Pizza := None, Margen_Pizza_mes := None,
                Adopcion_Retro := None\<rparr>
         else r\<lparr>Eventos := Some (of_nat (col_count (map Precio g))),
                Precio_promedio := col_mean (map Precio g),
                Ingresos := Some (col_sum (map Precio g)),
                Costo_variable_mes :=
                  fadd (Some (col_sum (map Costo_variable g)))
                       (fmul (Some (of_nat (count_true (isna (map Costo_variable g)))))
                             costo_var_default),
                Addons_Pizza := Some (of_nat (count_true (map (\<lambda>e. is_yes (Addon_Pizza e)) g))),
                Margen_Pizza_mes := Some (col_sum (map Margen_Pizza g)),
                Adopcion_Retro :=
                  fround2 (Some (of_nat (count_true (map (\<lambda>e. is_yes (Retro_exterior e)) g))
                                 / of_nat (length g) * 100))\<rparr>)"

text \<open>The loop \<^verbatim>\<open>for c in [...]: base[c] = base[c].fillna(0)\<close>, on one row.\<close>

definition fillna_cols :: "monthly_row \<Rightarrow> monthly_row" where
  "fillna_cols r =
     r\<lparr>Eventos := fillna0 (Eventos r), Precio_promedio := fillna0 (Precio_promedio r),
       Ingresos := fillna0 (Ingresos r), Costo_variable_mes := fillna0 (Costo_variable_mes r),
       Addons_Pizza := fillna0 (Addons_Pizza r), Margen_Pizza_mes := fillna0 (Margen_Pizza_mes r),
       Adopcion_Retro := fillna0 (Adopcion_Retro r)\<rparr>"

text \<open>The first lines of \<^verbatim>\<open>compute_monthly\<close>: one row per month, zero or \<^verbatim>\<open>NaN\<close>.\<close>

definition base_row :: "string \<Rightarrow> monthly_row" where
  "base_row m =
     \<lparr>Mes = m, Eventos = None, Precio_promedio = None, Ingresos = Some 0,
      Costo_variable_mes = Some 0, Gastos_fijos = Some 0, Addons_Pizza = None,
      Margen_Pizza_mes = Some 0, Utilidad_neta = Some 0, ARPU_real = Some 0,
      Reservas_Meta = Some 0, Adopcion_Retro = Some 0, Resenas_nuevas = Some 0\<rparr>"

text \<open>
  The fixed cost, the net profit and the ARPU, on one row:
  \<^verbatim>\<open>base.loc[base["_num"] >= APPLY_FIXED_FROM_MONTH, "Gastos fijos (MXN)"] = float(gasto_fijo_mensual)\<close>,
  \<^verbatim>\<open>Utilidad neta = Ingresos - Costo variable - Gastos fijos + Margen Pizza\<close> and
  \<^verbatim>\<open>np.where(Eventos > 0, Ingresos / Eventos, 0)\<close>.
\<close>

definition profit_cols :: "flt \<Rightarrow> monthly_row \<Rightarrow> monthly_row" where
  "profit_cols gasto_fijo_mensual r =
     (let r1 = r\<lparr>Gastos_fijos := (if APPLY_FIXED_FROM_MONTH \<le> month_to_num (Mes r)
                                    then gasto_fijo_mensual else Some 0)\<rparr>;
          r2 = r1\<lparr>Utilidad_neta :=
                    fadd (fsub (fsub (Ingresos r1) (Costo_variable_mes r1)) (Gastos_fijos r1))
                         (Margen_Pizza_mes r1)\<rparr>
      in r2\<lparr>ARPU_real := np_where_pos (Eventos r2) (fdiv (Ingresos r2) (Eventos r2))\<rparr>)"

text \<open>
  \<^verbatim>\<open>base.merge(tmp, on="Mes", how="left")\<close> with the funnel: a row of \<^verbatim>\<open>base\<close> is
  paired with the reservations of each funnel row of its month, and with \<^verbatim>\<open>NaN\<close>
  when the funnel has no row of that month. Then
  \<^verbatim>\<open>np.where(Eventos > 0, _Reservas / Eventos * 100, 0)\<close>.
\<close>

definition merge_funnel :: "(string \<times> flt) list \<Rightarrow> monthly_row \<Rightarrow> (monthly_row \<times> flt) list" where
  "merge_funnel tmp r =
     (case filter (\<lambda>f. fst f = Mes r) tmp of
        [] \<Rightarrow> [(r, None)]
      | f # fs \<Rightarrow> map (\<lambda>f. (r, snd f)) (f # fs))"

definition ratio_col :: "monthly_row \<times> flt \<Rightarrow> monthly_row" where
  "ratio_col p =
     (case p of (r, reservas) \<Rightarrow>
        r\<lparr>Reservas_Meta := np_where_pos (Eventos r) (fmul (fdiv reservas (Eventos r)) (Some 100))\<rparr>)"

definition funnel_cols :: "(string \<times> flt) list \<Rightarrow> monthly_row list \<Rightarrow> monthly_row list" where
  "funnel_cols funnel base =
     (if funnel \<noteq> [] then map ratio_col (concat (map (merge_funnel funnel) base))
      else map (\<lambda>r. r\<lparr>Reservas_Meta := Some 0\<rparr>) base)"

text \<open>
  The new reviews: \<^verbatim>\<open>base["Mes"].map(rese_map).fillna(base["Resenas nuevas (#)"]).fillna(0)\<close>
  with \<^verbatim>\<open>rese_map\<close> the reviews of the sheet \<^verbatim>\<open>Monthly\<close> by month.
  \<^verbatim>\<open>Series.map\<close> raises \<^verbatim>\<open>InvalidIndexError\<close> when a month stands twice in that
  sheet.
\<close>

definition review_col :: "(string \<times> flt) list \<Rightarrow> monthly_row \<Rightarrow> monthly_row" where
  "review_col monthly r =
     r\<lparr>Resenas_nuevas :=
         fillna0 (case (case map_of monthly (Mes r) of None \<Rightarrow> None | Some c \<Rightarrow> c) of
                    None \<Rightarrow> Resenas_nuevas r
                  | Some v \<Rightarrow> Some v)\<rparr>"

definition review_cols :: "(string \<times> flt) list \<Rightarrow> monthly_row list \<Rightarrow> error + monthly_row list" where
  "review_cols monthly base =
     (if monthly \<noteq> []
      then (if distinct (map fst monthly) then Inr (map (review_col monthly) base)
            else Inl InvalidIndexError)
      else Inr base)"

text \<open>The two loops \<^verbatim>\<open>base[c] = base[c].round(2)\<close>, on one row.\<close>

definition round_cols :: "monthly_row \<Rightarrow> monthly_row" where
  "round_cols r =
     r\<lparr>Precio_promedio := fround2 (Precio_promedio r), Ingresos := fround2 (Ingresos r),
       Costo_variable_mes := fround2 (Costo_variable_mes r), Gastos_fijos := fround2 (Gastos_fijos r),
       Margen_Pizza_mes := fround2 (Margen_Pizza_mes r), Utilidad_neta := fround2 (Utilidad_neta r),
       ARPU_real := fround2 (ARPU_real r), Reservas_Meta := fround2 (Reservas_Meta r),
       Adopcion_Retro := fround2 (Adopcion_Retro r), Resenas_nuevas := fround2 (Resenas_nuevas r)\<rparr>"

subsection \<open>The function\<close>

text \<open>
  The table \<^verbatim>\<open>base\<close> before the reviews are read (\<open>monthly_raw\<close>), and
  \<^verbatim>\<open>compute_monthly(dfs)\<close>: the reviews, the rounding and the sort by month
  (\<^verbatim>\<open>sort_values\<close> on the ordered categorical; the rows are in month order already).
\<close>

definition monthly_raw :: "dfs \<Rightarrow> monthly_row list" where
  "monthly_raw d =
     (let base = map base_row SPANISH_MONTHS;
          costo_var_default = get_assumption d ''Costo variable por evento (MXN)'' (Some 0);
          gasto_fijo_mensual = get_assumption d ''Gastos fijos mensuales (MXN)'' (Some 0);
          ev = filter efectuado (Event_Log d);
          base1 = (if ev \<noteq> [] then map (merge_agg ev costo_var_default) base else base);
          base2 = map fillna_cols base1;
          base3 = map (profit_cols gasto_fijo_mensual) base2
      in funnel_cols (Funnel d) base3)"

definition compute_monthly :: "dfs \<Rightarrow> error + monthly_row list" where
  "compute_monthly d =
     (case review_cols (Monthly d) (monthly_raw d) of
        Inl e \<Rightarrow> Inl e
      | Inr base \<Rightarrow> Inr (sort_key (\<lambda>r. month_to_num (Mes r)) (map round_cols base)))"


text \<open>The rows of a result; none when pandas raised.\<close>

definition rows_of :: "error + monthly_row list \<Rightarrow> monthly_row list" where
  "rows_of res = (case res of Inl e \<Rightarrow> [] | Inr rows \<Rightarrow> rows)"

subsection \<open>The claims' words\<close>

text \<open>An amount of whole cents: rounding to two decimals leaves it as it is. A missing
  amount counts as one.\<close>

definition whole_cents :: "rat \<Rightarrow> bool" where
  "whole_cents x = (of_int \<lfloor>x * 100\<rfloor> = x * 100)"




text \<open>
  The completed events of a month, and the month's amounts before any rounding: the revenue
  (sum of the prices), the explicit variable costs and the number of events without one, the
  variable-cost total with the backfill (a \<^verbatim>\<open>NaN\<close> total counts as 0), the pizza-margin
  total, the fixed cost of the month and the net profit.
\<close>

definition completed_in :: "dfs \<Rightarrow> string \<Rightarrow> event list" where
  "completed_in d m = filter (\<lambda>e. efectuado e \<and> ev_Mes e = Some m) (Event_Log d)"










subsection \<open>Example inputs\<close>

definition no_sheets :: dfs where
  "no_sheets = \<lparr>Assumptions = [], Monthly = [], Funnel = [], Event_Log = []\<rparr>"

definition done_event :: "nat \<Rightarrow> rat \<Rightarrow> event" where
  "done_event m p = blank_row\<lparr>ID := Some 1, Fecha := Some \<lparr>year = 2025, month = m, day = 15\<rparr>,
     Precio := Some p, Estatus := Some ''Efectuado''\<rparr>"






text \<open>Three completed events in January and one confirmed reservation.\<close>

definition ratio_example :: dfs where
  "ratio_example =
     no_sheets\<lparr>Funnel := [(''Ene'', Some 1)],
               Event_Log := [done_event 1 1000, done_event 1 1200, done_event 1 800]\<rparr>"

text \<open>January has three completed events, and the funnel lists February only.\<close>

definition unlisted_month_example :: dfs where
  "unlisted_month_example = ratio_example\<lparr>Funnel := [(''Feb'', Some 4)]\<rparr>"







section \<open>Properties of the event log normalizer\<close>

lemma set_dropna: "set (dropna col) = {v. Some v \<in> set col}"
  by (induction col rule: dropna.induct) auto



lemma col_max_upper:
  assumes "col_max col = Some mx" and "Some v \<in> set col"
  shows "v \<le> mx"
proof -
  from assms(1) obtain x xs where d: "dropna col = x # xs" and mx: "mx = fold max xs x"
    by (auto simp: col_max_def split: list.splits)
  have "mx = Max (set (dropna col))"
    unfolding d mx using Max.set_eq_fold [of x xs] by simp
  moreover have "v \<in> set (dropna col)"
    using assms(2) by (simp add: set_dropna)
  ultimately show ?thesis by simp
qed

lemma loc_assign_length [simp]: "length (loc_assign msk col new) = length col"
  by (induction msk col new rule: loc_assign.induct) auto

lemma mask_sum_Cons [simp]:
  "mask_sum (b # msk) = (if b then Suc (mask_sum msk) else mask_sum msk)"
  by (simp add: mask_sum_def)

lemma mask_sum_Nil [simp]: "mask_sum [] = 0"
  by (simp add: mask_sum_def)

lemma loc_assign_nth:
  "length msk = length col \<Longrightarrow> mask_sum msk \<le> length new \<Longrightarrow> i < length col \<Longrightarrow>
   loc_assign msk col new ! i = (if msk ! i then new ! mask_sum (take i msk) else col ! i)"
proof (induction msk col new arbitrary: i rule: loc_assign.induct)
  case (1 msk c col v new)
  then show ?case by (cases i) auto
next
  case (2 msk c col new)
  then show ?case by (cases i) auto
qed auto

lemma fold_reassign:
  "n \<le> length col \<Longrightarrow>
   fold reassign (filter P [0..<n]) (mx, col) =
     (mx + int (length (filter P [0..<n])),
      map (\<lambda>i. if i < n \<and> P i then Some (mx + 1 + int (length (filter P [0..<i]))) else col ! i)
        [0..<length col])"
proof (induction n)
  case 0
  then show ?case by (simp add: map_nth)
next
  case (Suc n)
  then have IH: "fold reassign (filter P [0..<n]) (mx, col) =
     (mx + int (length (filter P [0..<n])),
      map (\<lambda>i. if i < n \<and> P i then Some (mx + 1 + int (length (filter P [0..<i]))) else col ! i)
        [0..<length col])" by simp
  show ?case
  proof (cases "P n")
    case True
    have "fold reassign (filter P [0..<Suc n]) (mx, col) =
          reassign n (fold reassign (filter P [0..<n]) (mx, col))"
      using True by simp
    also have "\<dots> = (mx + int (length (filter P [0..<Suc n])),
      map (\<lambda>i. if i < Suc n \<and> P i then Some (mx + 1 + int (length (filter P [0..<i]))) else col ! i)
        [0..<length col])"
      unfolding IH reassign_def using True Suc.prems
      by (auto intro!: nth_equalityI simp: nth_list_update less_Suc_eq)
    finally show ?thesis .
  next
    case False
    then show ?thesis using IH by (auto simp: less_Suc_eq)
  qed
qed


lemma mask_sum_take_less:
  "i < length msk \<Longrightarrow> msk ! i \<Longrightarrow> mask_sum (take i msk) < mask_sum msk"
proof (induction msk arbitrary: i)
  case Nil
  then show ?case by simp
next
  case (Cons b msk)
  then show ?case by (cases i) auto
qed


lemma length_py_range [simp]: "length (py_range a (a + int k)) = k"
  by (simp add: py_range_def)

lemma nth_py_range: "i < k \<Longrightarrow> py_range a (a + int k) ! i = a + int i"
  by (simp add: py_range_def)

lemma fill_nan_ids:
  assumes "fill_nan_ids mx col = (col1, m1)"
  shows "length col1 = length col"
    and "m1 = mx + int (mask_sum (isna col))"
    and "i < length col \<Longrightarrow> col1 ! i =
           (case col ! i of None \<Rightarrow> Some (mx + 1 + int (mask_sum (take i (isna col))))
                          | Some v \<Rightarrow> Some v)"
proof -
  define k where "k = mask_sum (isna col)"
  show "length col1 = length col"
    using assms by (auto simp: fill_nan_ids_def Let_def split: if_splits)
  show "m1 = mx + int (mask_sum (isna col))"
    using assms
    by (auto simp: fill_nan_ids_def Let_def np_any_def mask_sum_def filter_empty_conv split: if_splits)
  show "col1 ! i = (case col ! i of None \<Rightarrow> Some (mx + 1 + int (mask_sum (take i (isna col))))
                          | Some v \<Rightarrow> Some v)" if i: "i < length col"
  proof (cases "np_any (isna col)")
    case True
    then have c1: "col1 = loc_assign (isna col) col (map Some (py_range (mx + 1) (mx + 1 + int k)))"
      using assms by (simp add: fill_nan_ids_def Let_def k_def)
    have "col1 ! i = (if isna col ! i then map Some (py_range (mx + 1) (mx + 1 + int k)) ! mask_sum (take i (isna col)) else col ! i)"
      using i unfolding c1
      by (simp add: loc_assign_nth isna_def k_def)
    moreover have "isna col ! i \<longleftrightarrow> col ! i = None"
      using i by (simp add: isna_def)
    moreover have "mask_sum (take i (isna col)) < k" if "isna col ! i"
      unfolding k_def using that i by (intro mask_sum_take_less) (simp_all add: isna_def)
    ultimately show ?thesis
      by (auto simp: nth_py_range split: option.splits)
  next
    case False
    then have "None \<notin> set col"
      by (auto simp: isna_def np_any_def)
    then have "col ! i \<noteq> None"
      using i nth_mem [of i col] by metis
    moreover have "col1 = col"
      using False assms by (simp add: fill_nan_ids_def Let_def)
    ultimately show ?thesis by auto
  qed
qed

lemma reassign_dups:
  "reassign_dups m col =
     map (\<lambda>i. if col ! i \<in> set (take i col)
              then Some (m + 1 + int (length (filter (\<lambda>j. col ! j \<in> set (take j col)) [0..<i])))
              else col ! i) [0..<length col]"
proof -
  define D where "D = (\<lambda>i. col ! i \<in> set (take i col))"
  have dups: "duplicated col = map D [0..<length col]"
    by (simp add: duplicated_def D_def)
  have w: "np_where (duplicated col) = filter D [0..<length col]"
    unfolding np_where_def dups by (auto intro: filter_cong)
  have "reassign_dups m col = map (\<lambda>i. if D i then Some (m + 1 + int (length (filter D [0..<i]))) else col ! i) [0..<length col]"
  proof (cases "np_any (duplicated col)")
    case True
    then show ?thesis
      unfolding reassign_dups_def Let_def w
      using fold_reassign [of "length col" col D m]
      by (auto intro!: nth_equalityI)
  next
    case False
    then have "\<forall>i<length col. \<not> D i"
      unfolding dups np_any_def by auto
    then show ?thesis
      unfolding reassign_dups_def Let_def using False by (auto intro!: nth_equalityI)
  qed
  then show ?thesis unfolding D_def .
qed


lemma ensure_ids_None: "col_max col = None \<Longrightarrow> ensure_ids col = map (\<lambda>i. Some (1 + int i)) [0..<length col]"
  by (auto simp: ensure_ids_def py_range_def intro!: nth_equalityI)

lemma ensure_ids_Some:
  assumes mx: "col_max col = Some mx"
  shows "\<exists>col1 k. length col1 = length col \<and>
    (\<forall>i<length col. \<exists>w. col1 ! i = Some w \<and> w \<le> mx + int k \<and>
            (col ! i = None \<longrightarrow> mx < w) \<and> (\<forall>v. col ! i = Some v \<longrightarrow> w = v \<and> v \<le> mx)) \<and>
    ensure_ids col =
           map (\<lambda>i. if col1 ! i \<in> set (take i col1)
                    then Some (mx + int k + 1 +
                               int (length (filter (\<lambda>j. col1 ! j \<in> set (take j col1)) [0..<i])))
                    else col1 ! i) [0..<length col]"
proof -
  obtain col1 m1 where f: "fill_nan_ids mx col = (col1, m1)"
    by (cases "fill_nan_ids mx col")
  define k where "k = mask_sum (isna col)"
  note F = fill_nan_ids [OF f]
  have 1: "length col1 = length col" by (rule F(1))
  have 2: "\<exists>w. col1 ! i = Some w \<and> w \<le> mx + int k \<and>
            (col ! i = None \<longrightarrow> mx < w) \<and> (\<forall>v. col ! i = Some v \<longrightarrow> w = v \<and> v \<le> mx)"
    if i: "i < length col" for i
  proof (cases "col ! i")
    case None
    have "isna col ! i" using i None by (simp add: isna_def)
    then have "mask_sum (take i (isna col)) < k"
      unfolding k_def using i by (intro mask_sum_take_less) (simp_all add: isna_def)
    then show ?thesis using F(3) [OF i] None by simp
  next
    case (Some v)
    have "Some v \<in> set col" using i Some nth_mem [of i col] by simp
    then have "v \<le> mx" using col_max_upper [OF mx] by simp
    then show ?thesis using F(3) [OF i] Some by simp
  qed
  have 3: "ensure_ids col =
           map (\<lambda>i. if col1 ! i \<in> set (take i col1)
                    then Some (mx + int k + 1 +
                               int (length (filter (\<lambda>j. col1 ! j \<in> set (take j col1)) [0..<i])))
                    else col1 ! i) [0..<length col]"
    using F(1,2) by (simp add: ensure_ids_def mx f reassign_dups k_def)
  from 1 2 3 show ?thesis by blast
qed

lemma ensure_ids_length [simp]: "length (ensure_ids col) = length col"
proof (cases "col_max col")
  case None
  then show ?thesis by (simp add: ensure_ids_None)
next
  case (Some mx)
  from ensure_ids_Some [OF Some] obtain col1 k where len: "length col1 = length col"
    and c1a: "(\<forall>i<length col. \<exists>w. col1 ! i = Some w \<and> w \<le> mx + int k \<and>
            (col ! i = None \<longrightarrow> mx < w) \<and> (\<forall>v. col ! i = Some v \<longrightarrow> w = v \<and> v \<le> mx))"
    and e: "ensure_ids col =
           map (\<lambda>i. if col1 ! i \<in> set (take i col1)
                    then Some (mx + int k + 1 +
                               int (length (filter (\<lambda>j. col1 ! j \<in> set (take j col1)) [0..<i])))
                    else col1 ! i) [0..<length col]"
    by blast
  have c1: "\<exists>w. col1 ! i = Some w \<and> w \<le> mx + int k \<and>
            (col ! i = None \<longrightarrow> mx < w) \<and> (\<forall>v. col ! i = Some v \<longrightarrow> w = v \<and> v \<le> mx)"
    if "i < length col" for i using c1a that by blast
  show ?thesis unfolding e by simp
qed











lemma fill_status_idem [simp]: "fill_status (fill_status s) = fill_status s"
  by (simp add: fill_status_def split: option.splits)






section \<open>Properties of the calendar projection and of the export\<close>

subsection \<open>Order of instants on one day\<close>

lemma tod_less_total: "\<not> tod_less b a \<longleftrightarrow> tod_less a b \<or> a = b"
  by (cases a; cases b) (auto simp: tod_less_def)

lemma date_less_irrefl [simp]: "\<not> date_less d d"
  by (simp add: date_less_def)

lemma dt_le_same_day:
  "dt_date a = dt_date b \<Longrightarrow> dt_le a b \<longleftrightarrow> \<not> dt_less b a"
  by (cases a; cases b) (auto simp: dt_le_def dt_less_def tod_less_total)

subsection \<open>The two loops\<close>

lemma combine_dt_Some:
  "combine_dt (Some d) h fb =
     Some \<lparr>dt_date = d, dt_time = (case h of None \<Rightarrow> \<lparr>hour = fst fb, minute = snd fb, second = 0\<rparr>
                                   | Some t \<Rightarrow> whole_minute t)\<rparr>"
  by (cases h) (simp_all add: combine_dt_def whole_minute_def)

lemma combine_dt_start: "combine_dt (Some d) (Hora r) (10, 0) = Some (start_instant d r)"
  by (cases "Hora r") (simp_all add: combine_dt_Some start_instant_def)

lemma hhmm_start_instant:
  "\<lparr>hour = fst (hhmm (start_instant d r)), minute = snd (hhmm (start_instant d r)), second = 0\<rparr>
     = dt_time (start_instant d r)"
  by (simp add: hhmm_def start_instant_def whole_minute_def split: option.splits)

lemma end_of_source:
  "(case combine_dt (Some d) (Hora_fin r) (hhmm (start_instant d r)) of
      None \<Rightarrow> plus_2h (start_instant d r)
    | Some e \<Rightarrow> if dt_le e (start_instant d r) then plus_2h (start_instant d r) else e)
   = end_instant d r"
proof (cases "Hora_fin r")
  case None
  have "\<lparr>dt_date = d, dt_time = dt_time (start_instant d r)\<rparr> = start_instant d r"
    by (simp add: start_instant_def)
  then show ?thesis
    using None by (simp add: combine_dt_Some hhmm_start_instant end_instant_def dt_le_def)
next
  case (Some t)
  have "dt_le \<lparr>dt_date = d, dt_time = whole_minute t\<rparr> (start_instant d r) \<longleftrightarrow>
        \<not> dt_less (start_instant d r) \<lparr>dt_date = d, dt_time = whole_minute t\<rparr>"
    by (rule dt_le_same_day) (simp add: start_instant_def)
  then show ?thesis
    using Some by (simp add: combine_dt_Some end_instant_def)
qed

lemma build_iso_dated:
  "Fecha r = Some d \<Longrightarrow>
   build_iso r = Some (fmt_iso (start_instant d r), fmt_iso (end_instant d r))"
  by (simp add: build_iso_def combine_dt_start end_of_source Let_def)



lemma ics_event_dated:
  "Fecha r = Some d \<Longrightarrow>
   ics_event now r =
     Some [''BEGIN:VEVENT'',
           ''UID:'' @ fmt_compact (start_instant d r) @ ''-gamebus@agenda'',
           ''DTSTAMP:'' @ fmt_compact now @ ''Z'',
           ''DTSTART:'' @ fmt_compact (start_instant d r),
           ''DTEND:'' @ fmt_compact (end_instant d r),
           ''SUMMARY:'' @ ''Evento: '' @ py_str (Nombre r) @ '' - $'' @ fmt_comma0 (Precio r),
           ''LOCATION:'' @ py_str (Direccion r),
           ''DESCRIPTION:'' @ join_with '' | '' (desc_parts r),
           ''END:VEVENT'']"
  by (simp add: ics_event_def combine_dt_start end_of_source Let_def)

lemma ics_event_None_iff: "ics_event now r = None \<longleftrightarrow> Fecha r = None"
proof (cases "Fecha r")
  case None
  then show ?thesis by (simp add: ics_event_def combine_dt_def)
next
  case (Some d)
  then show ?thesis by (simp add: ics_event_dated)
qed



lemma fold_ics_step: "fold (ics_step now) df acc = acc @ concat (List.map_filter (ics_event now) df)"
  by (induction df arbitrary: acc) (auto simp: ics_step_def List.map_filter_simps split: option.splits)


lemma ics_lines_eq:
  "ics_lines now df =
     [''BEGIN:VCALENDAR'', ''VERSION:2.0'', ''PRODID:-//GAME BUS MTY//Agenda//ES''] @
     concat (List.map_filter (ics_event now) df) @ [''END:VCALENDAR'']"
  by (simp add: ics_lines_def fold_ics_step)





text \<open>
  Claim C7, as it is stated, fails: the end of the entry is not the date at the end time
  when the end time has seconds, because \<open>combine_dt\<close> keeps the hour and the minute only.
  Here the end time is 12:30:45 and the entry ends at 12:30:00.
\<close>

theorem end_instant_counterexample:
  "Fecha seconds_example = Some march_1 \<and>
   build_iso seconds_example = Some (''2025-03-01T10:00:00'', ''2025-03-01T12:30:00'') \<and>
   fmt_iso (end_instant_stated march_1 seconds_example) = ''2025-03-01T12:30:45''"
  by (simp add: build_iso_dated seconds_example_def blank_row_def march_1_def
      start_instant_def end_instant_def end_instant_stated_def whole_minute_def
      dt_less_def date_less_def tod_less_def fmt_iso_def pad2_def pad4_def digit_def)

text \<open>
  Claim C7, amended. For every event with a parseable date, start and end times count by
  their hour and minute (seconds are cut off); the start is the date at the start time, or
  at 10:00 without one; the end is the date at the end time when that is strictly after the
  start, and otherwise (no end time, or one not strictly after the start) the start plus
  two hours. Both the calendar projection and the export use these instants. In particular
  an event without an end time ends two hours after its start.
\<close>

theorem end_instant_of_dated_event:
  "Fecha r = Some d \<Longrightarrow>
   build_iso r = Some (fmt_iso (start_instant d r), fmt_iso (end_instant d r)) \<and>
   (\<exists>b. ics_event now r = Some b \<and> b ! 3 = ''DTSTART:'' @ fmt_compact (start_instant d r)
        \<and> b ! 4 = ''DTEND:'' @ fmt_compact (end_instant d r)) \<and>
   (Hora_fin r = None \<longrightarrow> end_instant d r = plus_2h (start_instant d r)) \<and>
   (Hora_fin r = Some t \<and> dt_less (start_instant d r) \<lparr>dt_date = d, dt_time = whole_minute t\<rparr>
      \<longrightarrow> end_instant d r = \<lparr>dt_date = d, dt_time = whole_minute t\<rparr>) \<and>
   (Hora_fin r = Some t \<and> \<not> dt_less (start_instant d r) \<lparr>dt_date = d, dt_time = whole_minute t\<rparr>
      \<longrightarrow> end_instant d r = plus_2h (start_instant d r))"
  by (simp add: build_iso_dated ics_event_dated end_instant_def)

theorem end_instant_of_dated_event_witness:
  "build_iso no_end_example = Some (''2025-03-01T23:15:00'', ''2025-03-02T01:15:00'') \<and>
   end_instant march_1 no_end_example = plus_2h (start_instant march_1 no_end_example)"
proof -
  have f: "Fecha no_end_example = Some march_1"
    by (simp add: no_end_example_def blank_row_def)
  have h: "Hora_fin no_end_example = None"
    by (simp add: no_end_example_def blank_row_def)
  have "fmt_iso (start_instant march_1 no_end_example) = ''2025-03-01T23:15:00''"
    by (simp add: no_end_example_def blank_row_def march_1_def start_instant_def whole_minute_def
        fmt_iso_def pad2_def pad4_def digit_def)
  moreover have "fmt_iso (plus_2h (start_instant march_1 no_end_example)) = ''2025-03-02T01:15:00''"
    by (simp add: no_end_example_def blank_row_def march_1_def start_instant_def whole_minute_def
        plus_2h_def next_day_def days_in_month_def fmt_iso_def pad2_def pad4_def digit_def)
  ultimately show ?thesis
    using end_instant_of_dated_event [OF f, of clock_example] h by simp
qed

subsection \<open>The identifier of a block\<close>

lemma digit_eq_iff: "digit a = digit b \<longleftrightarrow> a mod 10 = b mod 10"
proof -
  have "distinct ''0123456789''" by simp
  moreover have "a mod 10 < length ''0123456789''" "b mod 10 < length ''0123456789''" by simp_all
  ultimately show ?thesis
    unfolding digit_def by (rule nth_eq_iff_index_eq)
qed

lemma div_mod_10_eq: "(a::nat) div 10 = b div 10 \<Longrightarrow> a mod 10 = b mod 10 \<Longrightarrow> a = b"
  by (metis div_mult_mod_eq)

lemma pad2_inj:
  assumes "a < 100" "b < 100" "pad2 a = pad2 b"
  shows "a = b"
proof -
  from assms(3) have d: "a div 10 mod 10 = b div 10 mod 10" "a mod 10 = b mod 10"
    by (simp_all add: pad2_def digit_eq_iff)
  have "a div 10 < 10" "b div 10 < 10" using assms(1,2) by simp_all
  then have "a div 10 = b div 10" using d(1) by simp
  then show ?thesis using d(2) by (rule div_mod_10_eq)
qed

lemma pad4_inj:
  assumes "a < 10000" "b < 10000" "pad4 a = pad4 b"
  shows "a = b"
proof -
  from assms(3) have d: "a div 1000 mod 10 = b div 1000 mod 10" "a div 100 mod 10 = b div 100 mod 10"
    "a div 10 mod 10 = b div 10 mod 10" "a mod 10 = b mod 10"
    by (simp_all add: pad4_def digit_eq_iff)
  have "a div 1000 < 10" "b div 1000 < 10" using assms(1,2) by simp_all
  then have "a div 1000 = b div 1000" using d(1) by simp
  then have "a div 100 div 10 = b div 100 div 10" by (simp add: div_mult2_eq [symmetric])
  then have "a div 100 = b div 100" using d(2) by (rule div_mod_10_eq)
  then have "a div 10 div 10 = b div 10 div 10" by (simp add: div_mult2_eq [symmetric])
  then have "a div 10 = b div 10" using d(3) by (rule div_mod_10_eq)
  then show ?thesis using d(4) by (rule div_mod_10_eq)
qed

lemma fmt_compact_inj:
  assumes "valid_date (dt_date a)" "valid_tod (dt_time a)"
    and "valid_date (dt_date b)" "valid_tod (dt_time b)"
    and "fmt_compact a = fmt_compact b"
  shows "a = b"
proof -
  have l2: "length (pad2 n) = 2" and l4: "length (pad4 n) = 4" for n
    by (simp_all add: pad2_def pad4_def)
  from assms(5) have e: "pad4 (year (dt_date a)) = pad4 (year (dt_date b))"
    "pad2 (month (dt_date a)) = pad2 (month (dt_date b))"
    "pad2 (day (dt_date a)) = pad2 (day (dt_date b))"
    "pad2 (hour (dt_time a)) = pad2 (hour (dt_time b))"
    "pad2 (minute (dt_time a)) = pad2 (minute (dt_time b))"
    "pad2 (second (dt_time a)) = pad2 (second (dt_time b))"
    unfolding fmt_compact_def by (simp_all add: l2 l4)
  have "year (dt_date a) = year (dt_date b)"
    using assms(1,3) e(1) by (intro pad4_inj) (simp_all add: valid_date_def)
  moreover have "month (dt_date a) = month (dt_date b)"
    using assms(1,3) e(2) by (intro pad2_inj) (simp_all add: valid_date_def)
  moreover have "day (dt_date a) = day (dt_date b)"
    using assms(1,3) e(3) by (intro pad2_inj) (simp_all add: valid_date_def)
  moreover have "hour (dt_time a) = hour (dt_time b)"
    using assms(2,4) e(4) by (intro pad2_inj) (simp_all add: valid_tod_def)
  moreover have "minute (dt_time a) = minute (dt_time b)"
    using assms(2,4) e(5) by (intro pad2_inj) (simp_all add: valid_tod_def)
  moreover have "second (dt_time a) = second (dt_time b)"
    using assms(2,4) e(6) by (intro pad2_inj) (simp_all add: valid_tod_def)
  ultimately show ?thesis
    by (cases a; cases b) simp
qed

lemma ics_event_undated: "Fecha r = None \<Longrightarrow> ics_event now r = None"
  by (simp add: ics_event_None_iff)

lemma valid_start_instant:
  "valid_row r \<Longrightarrow> Fecha r = Some d \<Longrightarrow>
   valid_date (dt_date (start_instant d r)) \<and> valid_tod (dt_time (start_instant d r))"
  by (auto simp: valid_row_def start_instant_def valid_tod_def whole_minute_def split: option.splits)

text \<open>
  Claim C9, as it is stated, fails: the identifier of a block is made from the start
  instant alone, so two different events that start at the same minute carry the same
  \<^verbatim>\<open>UID\<close> line. Here the rows with the ids 1 and 3 are both on 1 March 2025 without a
  start time (so both start at 10:00); the row with the id 2 has no date and is left out.
\<close>

theorem uid_counterexample:
  "map ID same_start_example = [Some 1, Some 2, Some 3] \<and>
   ics_lines clock_example same_start_example =
     [''BEGIN:VCALENDAR'', ''VERSION:2.0'', ''PRODID:-//GAME BUS MTY//Agenda//ES'',
      ''BEGIN:VEVENT'', ''UID:20250301T100000-gamebus@agenda'', ''DTSTAMP:20250220T080509Z'',
      ''DTSTART:20250301T100000'', ''DTEND:20250301T120000'', ''SUMMARY:Evento: Ana - $1,500'',
      ''LOCATION:nan'', ''DESCRIPTION:'', ''END:VEVENT'',
      ''BEGIN:VEVENT'', ''UID:20250301T100000-gamebus@agenda'', ''DTSTAMP:20250220T080509Z'',
      ''DTSTART:20250301T100000'', ''DTEND:20250301T120000'', ''SUMMARY:Evento: Luis - $2,000'',
      ''LOCATION:nan'', ''DESCRIPTION:'', ''END:VEVENT'',
      ''END:VCALENDAR'']"
proof -
  have c: "fmt_comma0 (Some 1500) = ''1,500''" "fmt_comma0 (Some 2000) = ''2,000''"
    by code_simp+
  have s: "fmt_compact \<lparr>dt_date = march_1, dt_time = \<lparr>hour = 10, minute = 0, second = 0\<rparr>\<rparr> = ''20250301T100000''"
    "fmt_compact \<lparr>dt_date = march_1, dt_time = \<lparr>hour = 12, minute = 0, second = 0\<rparr>\<rparr> = ''20250301T120000''"
    "fmt_compact clock_example = ''20250220T080509''"
    by (simp_all add: fmt_compact_def march_1_def clock_example_def pad2_def pad4_def digit_def)
  have "ics_lines clock_example same_start_example =
     [''BEGIN:VCALENDAR'', ''VERSION:2.0'', ''PRODID:-//GAME BUS MTY//Agenda//ES'',
      ''BEGIN:VEVENT'', ''UID:20250301T100000-gamebus@agenda'', ''DTSTAMP:20250220T080509Z'',
      ''DTSTART:20250301T100000'', ''DTEND:20250301T120000'', ''SUMMARY:Evento: Ana - $1,500'',
      ''LOCATION:nan'', ''DESCRIPTION:'', ''END:VEVENT'',
      ''BEGIN:VEVENT'', ''UID:20250301T100000-gamebus@agenda'', ''DTSTAMP:20250220T080509Z'',
      ''DTSTART:20250301T100000'', ''DTEND:20250301T120000'', ''SUMMARY:Evento: Luis - $2,000'',
      ''LOCATION:nan'', ''DESCRIPTION:'', ''END:VEVENT'',
      ''END:VCALENDAR'']"
    by (simp add: ics_lines_eq List.map_filter_simps ics_event_undated ics_event_dated
        same_start_example_def blank_row_def start_instant_def end_instant_def plus_2h_def
        s c py_str_def desc_parts_def desc_part_def)
  then show ?thesis
    by (simp add: same_start_example_def blank_row_def)
qed

text \<open>
  Claim C9, amended. Every block of the export carries the line \<^verbatim>\<open>UID:\<close> followed by
  the start instant and \<^verbatim>\<open>-gamebus@agenda\<close>. For two events of the export (with dates
  and times within the calendar's and the clock's ranges) the \<^verbatim>\<open>UID\<close> lines differ
  exactly when the start instants (date, hour and minute) differ; events that start at the
  same minute share their identifier.
\<close>

theorem uid_by_start_instant:
  "Fecha r1 = Some d1 \<and> Fecha r2 = Some d2 \<and> valid_row r1 \<and> valid_row r2 \<longrightarrow>
   (\<exists>b1 b2. ics_event now r1 = Some b1 \<and> ics_event now r2 = Some b2 \<and>
      b1 ! 1 = ''UID:'' @ fmt_compact (start_instant d1 r1) @ ''-gamebus@agenda'' \<and>
      b2 ! 1 = ''UID:'' @ fmt_compact (start_instant d2 r2) @ ''-gamebus@agenda'' \<and>
      (b1 ! 1 = b2 ! 1 \<longleftrightarrow> start_instant d1 r1 = start_instant d2 r2))"
proof (intro impI)
  assume h: "Fecha r1 = Some d1 \<and> Fecha r2 = Some d2 \<and> valid_row r1 \<and> valid_row r2"
  have v1: "valid_date (dt_date (start_instant d1 r1))" "valid_tod (dt_time (start_instant d1 r1))"
    using h valid_start_instant [of r1 d1] by simp_all
  have v2: "valid_date (dt_date (start_instant d2 r2))" "valid_tod (dt_time (start_instant d2 r2))"
    using h valid_start_instant [of r2 d2] by simp_all
  have "fmt_compact (start_instant d1 r1) = fmt_compact (start_instant d2 r2) \<longleftrightarrow>
        start_instant d1 r1 = start_instant d2 r2"
    using fmt_compact_inj [OF v1 v2] by auto
  then show "\<exists>b1 b2. ics_event now r1 = Some b1 \<and> ics_event now r2 = Some b2 \<and>
      b1 ! 1 = ''UID:'' @ fmt_compact (start_instant d1 r1) @ ''-gamebus@agenda'' \<and>
      b2 ! 1 = ''UID:'' @ fmt_compact (start_instant d2 r2) @ ''-gamebus@agenda'' \<and>
      (b1 ! 1 = b2 ! 1 \<longleftrightarrow> start_instant d1 r1 = start_instant d2 r2)"
    using h by (simp add: ics_event_dated)
qed

theorem uid_by_start_instant_witness:
  "\<exists>b1 b2. ics_event clock_example seconds_example = Some b1 \<and>
     ics_event clock_example no_end_example = Some b2 \<and>
     b1 ! 1 = ''UID:20250301T100000-gamebus@agenda'' \<and>
     b2 ! 1 = ''UID:20250301T231500-gamebus@agenda'' \<and> b1 ! 1 \<noteq> b2 ! 1"
proof -
  have f: "Fecha seconds_example = Some march_1" "Fecha no_end_example = Some march_1"
    by (simp_all add: seconds_example_def no_end_example_def blank_row_def)
  have v: "valid_row seconds_example" "valid_row no_end_example"
    by (simp_all add: valid_row_def valid_date_def valid_tod_def seconds_example_def
        no_end_example_def blank_row_def march_1_def)
  have s: "fmt_compact (start_instant march_1 seconds_example) = ''20250301T100000''"
    "fmt_compact (start_instant march_1 no_end_example) = ''20250301T231500''"
    by (simp_all add: seconds_example_def no_end_example_def blank_row_def march_1_def
        start_instant_def whole_minute_def fmt_compact_def pad2_def pad4_def digit_def)
  show ?thesis
    using uid_by_start_instant [of seconds_example march_1 no_end_example march_1 clock_example]
      f v s by auto
qed

section \<open>Properties of the monthly rollup\<close>





lemma col_sum_Nil [simp]: "col_sum [] = 0" and col_count_Nil [simp]: "col_count [] = 0"
  by (simp_all add: col_sum_def col_count_def)

lemma count_true_Nil [simp]: "count_true [] = 0"
  by (simp add: count_true_def)

lemma isna_Nil [simp]: "isna [] = []"
  by (simp add: isna_def)














lemma compute_monthly_raises:
  "\<not> distinct (map fst (Monthly d)) \<Longrightarrow> compute_monthly d = Inl InvalidIndexError"
  by (auto simp add: compute_monthly_def review_cols_def)




lemma whole_cents_iff: "whole_cents x \<longleftrightarrow> (\<exists>k::int. x * 100 = of_int k)"
proof
  assume "whole_cents x"
  then show "\<exists>k::int. x * 100 = of_int k" unfolding whole_cents_def by metis
next
  assume "\<exists>k::int. x * 100 = of_int k"
  then obtain k :: int where "x * 100 = of_int k" ..
  then show "whole_cents x" by (simp add: whole_cents_def)
qed

lemma rint_of_int [simp]: "rint (of_int k) = k"
  by (simp add: rint_def Let_def)

lemma round2_cents: "whole_cents x \<Longrightarrow> round2 x = x"
proof -
  assume "whole_cents x"
  then obtain k :: int where k: "x * 100 = of_int k" unfolding whole_cents_iff ..
  then have "round2 x = of_int k / 100" by (simp add: round2_def)
  also have "\<dots> = x" using k by simp
  finally show ?thesis .
qed

lemma round2_0 [simp]: "round2 0 = 0"
  by (rule round2_cents) (simp add: whole_cents_def)

lemma whole_cents_0 [simp]: "whole_cents 0"
  by (simp add: whole_cents_def)






lemma list_all_completed_in:
  "list_all P (Event_Log d) \<Longrightarrow> list_all P (completed_in d m)"
  by (simp add: completed_in_def list_all_iff)








lemma no_sheets_Monthly [simp]: "Monthly no_sheets = []"
  by (simp add: no_sheets_def)











































text \<open>
  A month with completed events that a non-empty funnel sheet does not list gets \<^verbatim>\<open>NaN\<close>
  as its booking ratio (the left merge leaves its reservations \<^verbatim>\<open>NaN\<close>).
\<close>

lemma unlisted_month_ratio:
  "Funnel unlisted_month_example = [(''Feb'', Some 4)] \<and>
   Mes (rows_of (compute_monthly unlisted_month_example) ! 0) = ''Ene'' \<and>
   Eventos (rows_of (compute_monthly unlisted_month_example) ! 0) = Some 3 \<and>
   Reservas_Meta (rows_of (compute_monthly unlisted_month_example) ! 0) = None"
  by code_simp







end
